theory Spec2Isabelle
  imports Main
begin

section \<open>Values of the Python program\<close>

text \<open>
  A Python \<open>str\<close> is modelled by the \<open>string\<close> of its UTF-8 bytes: literals of the
  source that are plain ASCII are written as they are, the Korean ones byte by byte.
  Encoding is injective and commutes with concatenation, so equality and f-string
  assembly of the source are equality and append here.
\<close>

subsection \<open>Floats\<close>

text \<open>
  The binary64 primitives of the interpreter are a parameter of the model: \<open>'f\<close> is the
  type of float values, and the record below holds the operations the source applies
  to them. Nothing is assumed about the operations.
  \<^item> \<open>fadd\<close>: \<open>x + y\<close> on floats (never raises);
  \<^item> \<open>fstr\<close>: the text an f-string substitutes for \<open>{x}\<close>;
  \<^item> \<open>fparse\<close>: \<open>float(s)\<close>, \<open>None\<close> where Python raises \<open>ValueError\<close>;
  \<^item> \<open>fzero\<close>: whether \<open>x == 0.0\<close> (the float is falsy);
  \<^item> \<open>lit_0_001\<close>, \<open>lit_0_002\<close>: the values of the literals \<open>0.001\<close> and \<open>0.002\<close>.
\<close>

record 'f float_ops =
  fadd :: "'f \<Rightarrow> 'f \<Rightarrow> 'f"
  fstr :: "'f \<Rightarrow> string"
  fparse :: "string \<Rightarrow> 'f option"
  fzero :: "'f \<Rightarrow> bool"
  lit_0_001 :: 'f
  lit_0_002 :: 'f

subsection \<open>Decoded JSON\<close>

text \<open>
  What \<open>response.json()\<close> can return: \<open>None\<close>, a bool, an int, a float, a str, a list
  or a dict with str keys. A dict is an association list read with \<open>map_of\<close>.
\<close>

datatype 'f json =
    JNull
  | JBool bool
  | JInt int
  | JFloat 'f
  | JStr string
  | JArr "'f json list"
  | JObj "(string \<times> 'f json) list"

text \<open>The exceptions that occur: those of the language, and those of the HTTP call.\<close>

datatype exn =
    AttributeError
  | KeyError
  | IndexError
  | TypeError
  | ConnectionError
  | Timeout
  | JSONDecodeError

text \<open>\<open>bool(v)\<close>, as the \<open>and\<close> of line 66 tests its right operand.\<close>

fun truthy :: "'f float_ops \<Rightarrow> 'f json \<Rightarrow> bool" where
  "truthy ops JNull = False"
| "truthy ops (JBool b) = b"
| "truthy ops (JInt i) = (i \<noteq> 0)"
| "truthy ops (JFloat x) = (\<not> fzero ops x)"
| "truthy ops (JStr s) = (s \<noteq> [])"
| "truthy ops (JArr xs) = (xs \<noteq> [])"
| "truthy ops (JObj kvs) = (kvs \<noteq> [])"

text \<open>\<open>v.get(k, d)\<close>: only a dict has the method.\<close>

fun py_get :: "'f json \<Rightarrow> string \<Rightarrow> 'f json \<Rightarrow> exn + 'f json" where
  "py_get (JObj kvs) k d = Inr (case map_of kvs k of Some v \<Rightarrow> v | None \<Rightarrow> d)"
| "py_get JNull k d = Inl AttributeError"
| "py_get (JBool b) k d = Inl AttributeError"
| "py_get (JInt i) k d = Inl AttributeError"
| "py_get (JFloat x) k d = Inl AttributeError"
| "py_get (JStr s) k d = Inl AttributeError"
| "py_get (JArr xs) k d = Inl AttributeError"

text \<open>\<open>v[k]\<close> for a str key \<open>k\<close>.\<close>

fun py_getitem :: "'f json \<Rightarrow> string \<Rightarrow> exn + 'f json" where
  "py_getitem (JObj kvs) k = (case map_of kvs k of Some v \<Rightarrow> Inr v | None \<Rightarrow> Inl KeyError)"
| "py_getitem JNull k = Inl TypeError"
| "py_getitem (JBool b) k = Inl TypeError"
| "py_getitem (JInt i) k = Inl TypeError"
| "py_getitem (JFloat x) k = Inl TypeError"
| "py_getitem (JStr s) k = Inl TypeError"
| "py_getitem (JArr xs) k = Inl TypeError"

text \<open>
  The first character of a str: its first byte and the continuation bytes
  (\<open>0x80\<close> to \<open>0xBF\<close>) that follow it.
\<close>

fun first_char :: "string \<Rightarrow> string" where
  "first_char [] = []"
| "first_char (c # cs) =
     c # takeWhile (\<lambda>d. (128::nat) \<le> of_char d \<and> (of_char d :: nat) < 192) cs"

text \<open>
  \<open>v[0]\<close>: the first element of a list, the first character of a str; no dict made
  from JSON has the key \<open>0\<close>; the other values are not subscriptable.
\<close>

fun py_index0 :: "'f json \<Rightarrow> exn + 'f json" where
  "py_index0 (JArr []) = Inl IndexError"
| "py_index0 (JArr (x # xs)) = Inr x"
| "py_index0 (JStr []) = Inl IndexError"
| "py_index0 (JStr (c # cs)) = Inr (JStr (first_char (c # cs)))"
| "py_index0 (JObj kvs) = Inl KeyError"
| "py_index0 JNull = Inl TypeError"
| "py_index0 (JBool b) = Inl TypeError"
| "py_index0 (JInt i) = Inl TypeError"
| "py_index0 (JFloat x) = Inl TypeError"

section \<open>The records the providers return\<close>

record 'f map_info =
  address :: "'f json"
  formatted_address :: "'f json"
  location_type :: "'f json"
  map_image_url :: string

record 'f point =
  lat :: 'f
  lon :: 'f

record 'f forest_data =
  is_mountain_area :: bool
  region_name :: string
  boundary_coordinates :: "'f point list"

record property_data =
  owner :: string
  registration_number :: string
  management :: "string option"

record 'f region_info_result =
  map_info :: "'f map_info"
  forest_data :: "'f forest_data"
  property_data :: property_data

text \<open>One constructor for each logging call of the source, with its argument.\<close>

datatype 'f log_event =
    GeocodeSuccess "'f json"
  | GeocodeFailure exn
  | ForestSuccess "'f forest_data"
  | ForestFailure exn
  | PropertySuccess property_data
  | PropertyFailure exn
  | EndpointError exn

section \<open>String constants\<close>

text \<open>"Gangwon-do sallim jiyeok", the region label of the mock forest data.\<close>

definition region_label :: string where
  "region_label =
     [CHR 0xEA, CHR 0xB0, CHR 0x95, CHR 0xEC, CHR 0x9B, CHR 0x90, CHR 0xEB, CHR 0x8F,
      CHR 0x84, CHR 0x20, CHR 0xEC, CHR 0x82, CHR 0xB0, CHR 0xEB, CHR 0xA6, CHR 0xBC,
      CHR 0xEC, CHR 0xA7, CHR 0x80, CHR 0xEC, CHR 0x97, CHR 0xAD]"

text \<open>"juso jeongbo eopseum", the default of a result without \<open>formatted_address\<close>.\<close>

definition no_address :: string where
  "no_address =
     [CHR 0xEC, CHR 0xA3, CHR 0xBC, CHR 0xEC, CHR 0x86, CHR 0x8C, CHR 0x20, CHR 0xEC,
      CHR 0xA0, CHR 0x95, CHR 0xEB, CHR 0xB3, CHR 0xB4, CHR 0x20, CHR 0xEC, CHR 0x97,
      CHR 0x86, CHR 0xEC, CHR 0x9D, CHR 0x8C]"

text \<open>"juso jeongboreul chajeul su eopseum", the address of the fallback branch.\<close>

definition address_not_found :: string where
  "address_not_found =
     [CHR 0xEC, CHR 0xA3, CHR 0xBC, CHR 0xEC, CHR 0x86, CHR 0x8C, CHR 0x20, CHR 0xEC,
      CHR 0xA0, CHR 0x95, CHR 0xEB, CHR 0xB3, CHR 0xB4, CHR 0xEB, CHR 0xA5, CHR 0xBC,
      CHR 0x20, CHR 0xEC, CHR 0xB0, CHR 0xBE, CHR 0xEC, CHR 0x9D, CHR 0x84, CHR 0x20,
      CHR 0xEC, CHR 0x88, CHR 0x98, CHR 0x20, CHR 0xEC, CHR 0x97, CHR 0x86, CHR 0xEC,
      CHR 0x9D, CHR 0x8C]"

text \<open>"Hong Gildong", the owner of the mock property record.\<close>

definition mock_owner :: string where
  "mock_owner =
     [CHR 0xED, CHR 0x99, CHR 0x8D, CHR 0xEA, CHR 0xB8, CHR 0xB8, CHR 0xEB, CHR 0x8F,
      CHR 0x99]"

text \<open>The message of the 400 response: \<open>latitude\<close> and \<open>longitude\<close> are required.\<close>

definition missing_parameters :: string where
  "missing_parameters =
     ''latitude'' @ [CHR 0xEC, CHR 0x99, CHR 0x80] @ '' longitude '' @
     [CHR 0xED, CHR 0x8C, CHR 0x8C, CHR 0xEB, CHR 0x9D, CHR 0xBC, CHR 0xEB, CHR 0xAF,
      CHR 0xB8, CHR 0xED, CHR 0x84, CHR 0xB0, CHR 0xEA, CHR 0xB0, CHR 0x80, CHR 0x20,
      CHR 0xED, CHR 0x95, CHR 0x84, CHR 0xEC, CHR 0x9A, CHR 0x94, CHR 0xED, CHR 0x95,
      CHR 0xA9, CHR 0xEB, CHR 0x8B, CHR 0x88, CHR 0xEB, CHR 0x8B, CHR 0xA4] @ ''.''"

text \<open>"seobeo ereo balsaeng", the message of the 500 response of the endpoint.\<close>

definition server_error :: string where
  "server_error =
     [CHR 0xEC, CHR 0x84, CHR 0x9C, CHR 0xEB, CHR 0xB2, CHR 0x84, CHR 0x20, CHR 0xEC,
      CHR 0x97, CHR 0x90, CHR 0xEB, CHR 0x9F, CHR 0xAC, CHR 0x20, CHR 0xEB, CHR 0xB0,
      CHR 0x9C, CHR 0xEC, CHR 0x83, CHR 0x9D]"

section \<open>The providers\<close>

text \<open>
  The outside world of \<open>get_map_info\<close> is \<open>requests.get(url, params=params,
  timeout=t).json()\<close>: a function from the URL, the query parameters (a value is a str
  or \<open>None\<close>) and the timeout to the exception raised (by the transport, the timeout or
  the JSON decoder) or the decoded body.
\<close>

type_synonym 'f http_get_json =
  "string \<Rightarrow> (string \<times> string option) list \<Rightarrow> nat \<Rightarrow> exn + 'f json"

text \<open>What an f-string substitutes for the API key, a str or \<open>None\<close> (\<open>os.getenv\<close>).\<close>

fun fmt_key :: "string option \<Rightarrow> string" where
  "fmt_key None = ''None''"
| "fmt_key (Some k) = k"

definition geocode_url :: string where
  "geocode_url = ''https://maps.googleapis.com/maps/api/geocode/json''"

text \<open>
  \<open>get_map_info\<close> (lines 50 to 85). The result is the dict returned or the exception
  that leaves the function, with the log events emitted. Only the request and the
  decoding are inside the \<open>try\<close>; the reading of \<open>geocode_data\<close> is after it.
\<close>

definition get_map_info ::
  "'f float_ops \<Rightarrow> string option \<Rightarrow> 'f http_get_json \<Rightarrow> 'f \<Rightarrow> 'f
     \<Rightarrow> (exn + 'f map_info) \<times> 'f log_event list" where
  "get_map_info ops api_key http latitude longitude =
     (let params = [(''latlng'', Some (fstr ops latitude @ '','' @ fstr ops longitude)),
                    (''key'', api_key)];
          (geocode_data, evs) =
            (case http geocode_url params 5 of
               Inr d \<Rightarrow> (d, [GeocodeSuccess d])
             | Inl e \<Rightarrow> (JObj [(''status'', JStr ''ERROR'')], [GeocodeFailure e]));
          fallback = Inr (JStr address_not_found, JStr []);
          fields =
            (case py_get geocode_data ''status'' JNull of
               Inl e \<Rightarrow> Inl e
             | Inr status \<Rightarrow>
                 if status \<noteq> JStr ''OK'' then fallback
                 else (case py_get geocode_data ''results'' JNull of
                   Inl e \<Rightarrow> Inl e
                 | Inr results \<Rightarrow>
                     if \<not> truthy ops results then fallback
                     else (case py_getitem geocode_data ''results'' of
                       Inl e \<Rightarrow> Inl e
                     | Inr rs \<Rightarrow> (case py_index0 rs of
                       Inl e \<Rightarrow> Inl e
                     | Inr result \<Rightarrow>
                         (case py_get result ''formatted_address'' (JStr no_address) of
                       Inl e \<Rightarrow> Inl e
                     | Inr addr \<Rightarrow> (case py_get result ''geometry'' (JObj []) of
                       Inl e \<Rightarrow> Inl e
                     | Inr geometry \<Rightarrow>
                         (case py_get geometry ''location_type'' (JStr ''N/A'') of
                       Inl e \<Rightarrow> Inl e
                     | Inr ltype \<Rightarrow> Inr (addr, ltype))))))));
          url = ''https://maps.googleapis.com/maps/api/staticmap?'' @
                ''center='' @ fstr ops latitude @ '','' @ fstr ops longitude @
                ''&zoom=15&size=600x300&key='' @ fmt_key api_key
      in (case fields of
            Inl e \<Rightarrow> Inl e
          | Inr (addr, ltype) \<Rightarrow>
              Inr \<lparr>address = addr, formatted_address = addr, location_type = ltype,
                   map_image_url = url\<rparr>,
          evs))"

text \<open>
  \<open>get_forest_data\<close> (lines 88 to 108): the body of the \<open>try\<close>, then the function with
  its \<open>except\<close> branch.
\<close>

definition forest_try :: "'f float_ops \<Rightarrow> 'f \<Rightarrow> 'f \<Rightarrow> exn + 'f forest_data" where
  "forest_try ops latitude longitude =
     Inr \<lparr>is_mountain_area = True,
          region_name = region_label,
          boundary_coordinates =
            [\<lparr>lat = fadd ops latitude (lit_0_001 ops), lon = fadd ops longitude (lit_0_001 ops)\<rparr>,
             \<lparr>lat = fadd ops latitude (lit_0_002 ops), lon = fadd ops longitude (lit_0_001 ops)\<rparr>,
             \<lparr>lat = fadd ops latitude (lit_0_002 ops), lon = fadd ops longitude (lit_0_002 ops)\<rparr>,
             \<lparr>lat = fadd ops latitude (lit_0_001 ops), lon = fadd ops longitude (lit_0_002 ops)\<rparr>]\<rparr>"

definition get_forest_data ::
  "'f float_ops \<Rightarrow> 'f \<Rightarrow> 'f \<Rightarrow> 'f forest_data \<times> 'f log_event list" where
  "get_forest_data ops latitude longitude =
     (case forest_try ops latitude longitude of
        Inr data \<Rightarrow> (data, [ForestSuccess data])
      | Inl e \<Rightarrow>
          (\<lparr>is_mountain_area = False, region_name = [], boundary_coordinates = []\<rparr>,
           [ForestFailure e]))"

text \<open>\<open>get_property_data\<close> (lines 111 to 126), in the same way.\<close>

definition property_try :: "string \<Rightarrow> exn + property_data" where
  "property_try region =
     Inr \<lparr>owner = mock_owner, registration_number = ''1234-5678-9012'',
          management = None\<rparr>"

definition get_property_data :: "string \<Rightarrow> property_data \<times> 'f log_event list" where
  "get_property_data region =
     (case property_try region of
        Inr data \<Rightarrow> (data, [PropertySuccess data])
      | Inl e \<Rightarrow>
          (\<lparr>owner = [], registration_number = [], management = None\<rparr>,
           [PropertyFailure e]))"

section \<open>The endpoint\<close>

text \<open>
  \<open>request.args.get(name, type=float)\<close>: \<open>None\<close> when the parameter is missing, and
  when \<open>float\<close> raises \<open>ValueError\<close> on its text.
\<close>

definition args_get_float ::
  "'f float_ops \<Rightarrow> (string \<rightharpoonup> string) \<Rightarrow> string \<Rightarrow> 'f option" where
  "args_get_float ops args name =
     (case args name of None \<Rightarrow> None | Some s \<Rightarrow> fparse ops s)"

datatype 'f body = ErrorBody string | ResultBody "'f region_info_result"

text \<open>
  \<open>get_region_info\<close> (lines 131 to 156), without the rate-limit decorator: the JSON
  body, the status code and the log events of one request.
\<close>

definition get_region_info ::
  "'f float_ops \<Rightarrow> string option \<Rightarrow> 'f http_get_json \<Rightarrow> (string \<rightharpoonup> string)
     \<Rightarrow> ('f body \<times> nat) \<times> 'f log_event list" where
  "get_region_info ops api_key http args =
     (case (args_get_float ops args ''latitude'', args_get_float ops args ''longitude'') of
        (Some latitude, Some longitude) \<Rightarrow>
          (case get_map_info ops api_key http latitude longitude of
             (Inl e, evs) \<Rightarrow> ((ErrorBody server_error, 500), evs @ [EndpointError e])
           | (Inr m, evs) \<Rightarrow>
               (let (f, evs_f) = get_forest_data ops latitude longitude;
                    (p, evs_p) = get_property_data (region_name f)
                in ((ResultBody \<lparr>map_info = m, forest_data = f, property_data = p\<rparr>, 200),
                    evs @ evs_f @ evs_p)))
      | _ \<Rightarrow> ((ErrorBody missing_parameters, 400), []))"

section \<open>An instance of the float primitives\<close>

text \<open>
  To run the model on concrete requests the primitives need values. \<open>milli_ops\<close> is
  decimal fixed-point arithmetic with three fractional digits (the integer \<open>n\<close> stands
  for \<open>n / 1000\<close>): addition is exact, numbers are written and read as
  \<open>[-]digits[.digits]\<close>. It stands in for binary64 in the evaluations only; every
  theorem below that mentions \<open>ops\<close> holds for all primitives.
\<close>

function digits_of :: "nat \<Rightarrow> string" where
  "digits_of n =
     (if n < 10 then [''0123456789'' ! n]
      else digits_of (n div 10) @ [''0123456789'' ! (n mod 10)])"
  by pat_completeness auto
termination
  by (relation "measure (\<lambda>n. n)") auto

fun strip_zeros :: "string \<Rightarrow> string" where
  "strip_zeros [] = []"
| "strip_zeros (c # cs) =
     (case strip_zeros cs of
        [] \<Rightarrow> (if c = CHR ''0'' then [] else [c])
      | r \<Rightarrow> c # r)"

definition milli_str :: "int \<Rightarrow> string" where
  "milli_str n =
     (let m = nat \<bar>n\<bar>;
          frac = strip_zeros (tl (digits_of (1000 + m mod 1000)))
      in (if n < 0 then ''-'' else []) @ digits_of (m div 1000) @ ''.'' @
         (if frac = [] then ''0'' else frac))"

fun parse_digits :: "nat \<Rightarrow> string \<Rightarrow> nat option" where
  "parse_digits acc [] = Some acc"
| "parse_digits acc (c # cs) =
     (if c \<in> set ''0123456789''
      then parse_digits (10 * acc + (of_char c - 48)) cs
      else None)"

definition milli_parse :: "string \<Rightarrow> int option" where
  "milli_parse s =
     (let neg = (s \<noteq> [] \<and> hd s = CHR ''-'');
          body = (if neg then tl s else s);
          whole = takeWhile (\<lambda>c. c \<noteq> CHR ''.'') body;
          frac = drop (Suc (length whole)) body
      in if whole = [] \<or> 3 < length frac then None
         else (case (parse_digits 0 whole,
                     parse_digits 0 (frac @ replicate (3 - length frac) CHR ''0'')) of
                 (Some w, Some f) \<Rightarrow>
                   Some ((if neg then - 1 else 1) * int (1000 * w + f))
               | _ \<Rightarrow> None))"

definition milli_ops :: "int float_ops" where
  "milli_ops = \<lparr>fadd = (+), fstr = milli_str, fparse = milli_parse,
                fzero = (\<lambda>x. x = 0), lit_0_001 = 1, lit_0_002 = 2\<rparr>"

section \<open>The rate limiter\<close>

text \<open>
  The limits the source declares, as (count, window in seconds): \<open>"10 per minute"\<close> on
  the route (line 130), \<open>"200 per day"\<close> and \<open>"50 per hour"\<close> as defaults (line 36). The
  key of a counter is the remote address of the client (line 34).
\<close>

definition route_limits :: "(nat \<times> nat) list" where
  "route_limits = [(10, 60)]"

definition default_limits :: "(nat \<times> nat) list" where
  "default_limits = [(200, 86400), (50, 3600)]"

text \<open>A request as the gateway sees it: the client address, the arrival time, the query.\<close>

record request =
  req_client :: string
  req_time :: nat
  req_args :: "string \<rightharpoonup> string"

text \<open>
  Modelled from the spec: the state of the rate limiter, whose code (the Flask-Limiter
  library) is not in the source. Section 4.5 and the glossary describe a cap on the
  requests accepted from one client identity in a time window; the state holds, for
  each client, the times of its accepted requests.
\<close>

type_synonym limiter_state = "string \<Rightarrow> nat list"

text \<open>
  Modelled from the spec: the number of accepted requests in the window of length \<open>w\<close>
  that ends at time \<open>t\<close>, a request at \<open>t'\<close> being in the window when \<open>t - t' < w\<close>.
\<close>

definition hits_in_window :: "nat \<Rightarrow> nat \<Rightarrow> nat list \<Rightarrow> nat" where
  "hits_in_window w t hist = length (filter (\<lambda>t'. t < t' + w) hist)"

text \<open>
  Modelled from the spec: at most 10 requests per minute, layered under 50 per hour and
  200 per day (section 4.5). A request passes when it is under every limit.
\<close>

definition under_limits :: "nat list \<Rightarrow> nat \<Rightarrow> bool" where
  "under_limits hist t =
     list_all (\<lambda>(n, w). hits_in_window w t hist < n) (route_limits @ default_limits)"

text \<open>
  Modelled from the spec: one request against the limiter. An accepted request is
  recorded for its client; a rejected one leaves the state as it is.
\<close>

definition limiter_hit :: "limiter_state \<Rightarrow> string \<Rightarrow> nat \<Rightarrow> bool \<times> limiter_state" where
  "limiter_hit st c t =
     (if under_limits (st c) t then (True, st(c := t # st c)) else (False, st))"

text \<open>
  What the caller gets: the rate-limit rejection (status 429, section 6), or the
  answer and the log events of \<open>get_region_info\<close>.
\<close>

datatype 'f outcome = RateLimited | Processed "('f body \<times> nat) \<times> 'f log_event list"

text \<open>
  Modelled from the spec: the decorated endpoint (lines 129 to 131). A breach of the
  quota short-circuits before \<open>get_region_info\<close> runs (section 4.5).
\<close>

definition limited_get_region_info ::
  "'f float_ops \<Rightarrow> string option \<Rightarrow> 'f http_get_json \<Rightarrow> limiter_state \<Rightarrow> request
     \<Rightarrow> 'f outcome \<times> limiter_state" where
  "limited_get_region_info ops api_key http st r =
     (case limiter_hit st (req_client r) (req_time r) of
        (True, st') \<Rightarrow> (Processed (get_region_info ops api_key http (req_args r)), st')
      | (False, st') \<Rightarrow> (RateLimited, st'))"

text \<open>
  Modelled from the spec: the gateway serving requests in their order of arrival, the
  limiter state passed from one to the next.
\<close>

fun serve ::
  "'f float_ops \<Rightarrow> string option \<Rightarrow> 'f http_get_json \<Rightarrow> limiter_state \<Rightarrow> request list
     \<Rightarrow> 'f outcome list" where
  "serve ops api_key http st [] = []"
| "serve ops api_key http st (r # rs) =
     (case limited_get_region_info ops api_key http st r of
        (out, st') \<Rightarrow> out # serve ops api_key http st' rs)"

text \<open>The outcomes of the requests of client \<open>c\<close>, in their order.\<close>

definition outcomes_of :: "string \<Rightarrow> request list \<Rightarrow> 'f outcome list \<Rightarrow> 'f outcome list" where
  "outcomes_of c rs outs = map snd (filter (\<lambda>(r, out). req_client r = c) (zip rs outs))"

text \<open>
  A burst for the evaluations: eleven valid requests of the client \<open>10.0.0.1\<close> within 60
  seconds, one request of another client among them, and a limiter state in which
  \<open>10.0.0.1\<close> was last accepted more than a day before.
\<close>

definition burst_requests :: "request list" where
  "burst_requests =
     map (\<lambda>(c, t). \<lparr>req_client = c, req_time = t,
                     req_args = [''latitude'' \<mapsto> ''37.566'', ''longitude'' \<mapsto> ''126.978'']\<rparr>)
       [(''10.0.0.1'', 100000), (''10.0.0.1'', 100005), (''10.0.0.1'', 100010),
        (''10.0.0.1'', 100015), (''10.0.0.1'', 100020), (''10.0.0.2'', 100022),
        (''10.0.0.1'', 100025), (''10.0.0.1'', 100030), (''10.0.0.1'', 100035),
        (''10.0.0.1'', 100040), (''10.0.0.1'', 100045), (''10.0.0.1'', 100059)]"

definition burst_state :: limiter_state where
  "burst_state = (\<lambda>c. if c = ''10.0.0.1'' then [5] else [])"

section \<open>Lemmas on the providers\<close>

text \<open>Every call of a provider emits exactly one log event.\<close>

lemma get_map_info_logs_once:
  "length (snd (get_map_info ops api_key http latitude longitude)) = 1"
  by (auto simp: get_map_info_def Let_def split: sum.splits prod.splits)

lemma get_forest_data_logs_once:
  "length (snd (get_forest_data ops latitude longitude)) = 1"
  by (simp add: get_forest_data_def forest_try_def)

lemma get_property_data_logs_once:
  "length (snd (get_property_data region :: property_data \<times> 'f log_event list)) = 1"
  by (simp add: get_property_data_def property_try_def)

text \<open>
  When the request or the decoding raises, and when the reply is a dict whose \<open>status\<close>
  is not \<open>"OK"\<close> or whose \<open>results\<close> is missing or falsy, \<open>get_map_info\<close> returns the
  fallback address and the empty location type.
\<close>

lemma get_map_info_fallback:
  assumes "http geocode_url
             [(''latlng'', Some (fstr ops latitude @ '','' @ fstr ops longitude)),
              (''key'', api_key)] 5 = Inl e
         \<or> (\<exists>kvs. http geocode_url
             [(''latlng'', Some (fstr ops latitude @ '','' @ fstr ops longitude)),
              (''key'', api_key)] 5 = Inr (JObj kvs)
            \<and> (map_of kvs ''status'' \<noteq> Some (JStr ''OK'')
               \<or> (case map_of kvs ''results'' of None \<Rightarrow> True | Some v \<Rightarrow> \<not> truthy ops v)))"
  shows "fst (get_map_info ops api_key http latitude longitude) =
     Inr \<lparr>address = JStr address_not_found, formatted_address = JStr address_not_found,
          location_type = JStr [],
          map_image_url =
            ''https://maps.googleapis.com/maps/api/staticmap?center='' @ fstr ops latitude @
            '','' @ fstr ops longitude @ ''&zoom=15&size=600x300&key='' @ fmt_key api_key\<rparr>"
  using assms
  by (auto simp: get_map_info_def Let_def split: option.splits)

text \<open>
  A reply that is not a dict makes \<open>get_map_info\<close> raise \<open>AttributeError\<close>, whatever the
  coordinate and the key: \<open>geocode_data.get\<close> is evaluated outside the \<open>try\<close>.
\<close>

lemma get_map_info_not_a_dict:
  assumes "http geocode_url
             [(''latlng'', Some (fstr ops latitude @ '','' @ fstr ops longitude)),
              (''key'', api_key)] 5 = Inr d"
    and "\<forall>kvs. d \<noteq> JObj kvs"
  shows "get_map_info ops api_key http latitude longitude =
           (Inl AttributeError, [GeocodeSuccess d])"
  using assms
  by (cases d) (auto simp: get_map_info_def Let_def)

text \<open>
  With both parameters parsed, the endpoint answers 200 with the three provider results
  whenever \<open>get_map_info\<close> returns, and 500 with the fixed message whenever it raises.
\<close>

lemma get_region_info_composition:
  fixes ops :: "'f float_ops"
  assumes "args ''latitude'' = Some s1" and "fparse ops s1 = Some latitude"
    and "args ''longitude'' = Some s2" and "fparse ops s2 = Some longitude"
    and "fst (get_map_info ops api_key http latitude longitude) = Inr m"
  shows "fst (get_region_info ops api_key http args) =
     (ResultBody
        \<lparr>map_info = m,
         forest_data = fst (get_forest_data ops latitude longitude),
         property_data =
           fst (get_property_data (region_name (fst (get_forest_data ops latitude longitude)))
                  :: property_data \<times> 'f log_event list)\<rparr>,
      200)"
  using assms
  by (auto simp: get_region_info_def args_get_float_def Let_def split: prod.splits sum.splits)

lemma get_region_info_server_error:
  assumes "args ''latitude'' = Some s1" and "fparse ops s1 = Some latitude"
    and "args ''longitude'' = Some s2" and "fparse ops s2 = Some longitude"
    and "fst (get_map_info ops api_key http latitude longitude) = Inl e"
  shows "fst (get_region_info ops api_key http args) = (ErrorBody server_error, 500)"
  using assms
  by (auto simp: get_region_info_def args_get_float_def Let_def split: prod.splits sum.splits)

text \<open>
  For replies of the documented shape (a dict with \<open>status\<close> equal to \<open>"OK"\<close>, \<open>results\<close> a
  non-empty list whose first element is a dict \<open>r\<close>, and the \<open>geometry\<close> of \<open>r\<close> a dict \<open>g\<close>
  or absent, \<open>g\<close> being empty then) \<open>get_map_info\<close> returns the fields of \<open>r\<close> with their
  defaults.
\<close>

lemma get_map_info_well_shaped_reply:
  assumes "http geocode_url
             [(''latlng'', Some (fstr ops latitude @ '','' @ fstr ops longitude)),
              (''key'', api_key)] 5 = Inr (JObj kvs)"
    and "map_of kvs ''status'' = Some (JStr ''OK'')"
    and "map_of kvs ''results'' = Some (JArr (JObj r # rest))"
    and "case map_of r ''geometry'' of None \<Rightarrow> g = [] | Some v \<Rightarrow> v = JObj g"
  shows "fst (get_map_info ops api_key http latitude longitude) =
     Inr \<lparr>address =
            (case map_of r ''formatted_address'' of Some a \<Rightarrow> a | None \<Rightarrow> JStr no_address),
          formatted_address =
            (case map_of r ''formatted_address'' of Some a \<Rightarrow> a | None \<Rightarrow> JStr no_address),
          location_type =
            (case map_of g ''location_type'' of Some t \<Rightarrow> t | None \<Rightarrow> JStr ''N/A''),
          map_image_url =
            ''https://maps.googleapis.com/maps/api/staticmap?center='' @ fstr ops latitude @
            '','' @ fstr ops longitude @ ''&zoom=15&size=600x300&key='' @ fmt_key api_key\<rparr>"
  using assms
  by (auto simp: get_map_info_def Let_def split: option.splits)

text \<open>
  A first result that is not a dict, and a \<open>geometry\<close> that is present and not a dict,
  make \<open>get_map_info\<close> raise \<open>AttributeError\<close> on a reply with \<open>status\<close> equal to \<open>"OK"\<close>.
\<close>

lemma get_map_info_geometry_not_a_dict:
  assumes "http geocode_url
             [(''latlng'', Some (fstr ops latitude @ '','' @ fstr ops longitude)),
              (''key'', api_key)] 5 = Inr (JObj kvs)"
    and "map_of kvs ''status'' = Some (JStr ''OK'')"
    and "map_of kvs ''results'' = Some (JArr (JObj r # rest))"
    and "map_of r ''geometry'' = Some v"
    and "\<forall>g. v \<noteq> JObj g"
  shows "get_map_info ops api_key http latitude longitude =
           (Inl AttributeError, [GeocodeSuccess (JObj kvs)])"
  using assms
  by (cases v) (auto simp: get_map_info_def Let_def split: option.splits)

text \<open>Every map info that \<open>get_map_info\<close> returns carries the static-map URL.\<close>

lemma get_map_info_returned_url:
  assumes "fst (get_map_info ops api_key http latitude longitude) = Inr m"
  shows "map_image_url m =
     ''https://maps.googleapis.com/maps/api/staticmap?center='' @ fstr ops latitude @ '','' @
     fstr ops longitude @ ''&zoom=15&size=600x300&key='' @ fmt_key api_key
   \<and> map_image_url m \<noteq> []"
  using assms
  by (auto simp: get_map_info_def Let_def split: sum.splits prod.splits if_splits)

section \<open>Lemmas on the rate limiter\<close>

text \<open>
  When the recorded requests of a client are a recent part \<open>B\<close>, all less than a minute
  from \<open>t\<close>, and an old part \<open>h0\<close>, all a day or more before \<open>t\<close>, each of the three
  windows holds exactly \<open>B\<close>.
\<close>

lemma hits_in_window_recent:
  assumes "\<forall>t'\<in>set h0. t' + 86400 \<le> t" and "\<forall>t'\<in>set B. t < t' + 60"
    and "60 \<le> w" and "w \<le> 86400"
  shows "hits_in_window w t (B @ h0) = length B"
proof -
  have "filter (\<lambda>t'. t < t' + w) B = B"
    using assms by (auto simp: filter_id_conv)
  moreover have "filter (\<lambda>t'. t < t' + w) h0 = []"
    using assms by (auto simp: filter_empty_conv)
  ultimately show ?thesis
    by (simp add: hits_in_window_def)
qed

lemma under_limits_recent:
  assumes "\<forall>t'\<in>set h0. t' + 86400 \<le> t" and "\<forall>t'\<in>set B. t < t' + 60"
  shows "under_limits (B @ h0) t \<longleftrightarrow> length B < 10"
  using hits_in_window_recent [OF assms, of 60] hits_in_window_recent [OF assms, of 3600]
    hits_in_window_recent [OF assms, of 86400]
  by (auto simp: under_limits_def route_limits_def default_limits_def)

text \<open>
  The requests of one client that lie within a minute of each other and of the recent
  part \<open>B\<close>: as many are processed as \<open>B\<close> leaves room for under the cap of 10, the
  others are rejected. Requests of other clients in between change nothing.
\<close>

lemma serve_burst:
  assumes "st c = B @ h0"
    and "\<forall>t'\<in>set h0. \<forall>r\<in>set rs. req_client r = c \<longrightarrow> t' + 86400 \<le> req_time r"
    and "\<forall>t'\<in>set B. \<forall>r\<in>set rs. req_client r = c \<longrightarrow> req_time r < t' + 60"
    and "\<forall>r\<in>set rs. \<forall>r'\<in>set rs. req_client r = c \<and> req_client r' = c
            \<longrightarrow> req_time r < req_time r' + 60"
    and "length B \<le> 10"
  shows "outcomes_of c rs (serve ops api_key http st rs) =
     map (\<lambda>r. Processed (get_region_info ops api_key http (req_args r)))
         (take (10 - length B) (filter (\<lambda>r. req_client r = c) rs))
     @ replicate (length (filter (\<lambda>r. req_client r = c) rs) - (10 - length B)) RateLimited"
  using assms
proof (induction rs arbitrary: st B)
  case Nil
  then show ?case
    by (simp add: outcomes_of_def)
next
  case (Cons r rs)
  show ?case
  proof (cases "req_client r = c")
    case False
    obtain out st' where step: "limited_get_region_info ops api_key http st r = (out, st')"
      by (cases "limited_get_region_info ops api_key http st r")
    have keep: "st' c = B @ h0"
      using step False Cons.prems(1)
      by (auto simp: limited_get_region_info_def limiter_hit_def split: if_splits)
    have "outcomes_of c rs (serve ops api_key http st' rs) =
       map (\<lambda>r. Processed (get_region_info ops api_key http (req_args r)))
         (take (10 - length B) (filter (\<lambda>r. req_client r = c) rs))
       @ replicate (length (filter (\<lambda>r. req_client r = c) rs) - (10 - length B)) RateLimited"
      using Cons.prems by (intro Cons.IH [of st' B, OF keep]) auto
    then show ?thesis
      using False step by (simp add: outcomes_of_def)
  next
    case True
    have old: "\<forall>t'\<in>set h0. t' + 86400 \<le> req_time r"
      using Cons.prems(2) True by auto
    have new: "\<forall>t'\<in>set B. req_time r < t' + 60"
      using Cons.prems(3) True by auto
    have ul: "under_limits (st c) (req_time r) \<longleftrightarrow> length B < 10"
      using under_limits_recent [OF old new] Cons.prems(1) by simp
    show ?thesis
    proof (cases "length B < 10")
      case lt: True
      let ?st' = "st(c := req_time r # st c)"
      have step: "limited_get_region_info ops api_key http st r =
          (Processed (get_region_info ops api_key http (req_args r)), ?st')"
        using ul lt True by (simp add: limited_get_region_info_def limiter_hit_def)
      have st': "?st' c = (req_time r # B) @ h0"
        using Cons.prems(1) by simp
      have "outcomes_of c rs (serve ops api_key http ?st' rs) =
         map (\<lambda>r. Processed (get_region_info ops api_key http (req_args r)))
           (take (10 - length (req_time r # B)) (filter (\<lambda>r. req_client r = c) rs))
         @ replicate (length (filter (\<lambda>r. req_client r = c) rs) - (10 - length (req_time r # B)))
             RateLimited"
        using Cons.prems True lt
        by (intro Cons.IH [of ?st' "req_time r # B", OF st']) auto
      moreover have "10 - length B = Suc (10 - length (req_time r # B))"
        using lt by simp
      ultimately show ?thesis
        using True step by (simp add: outcomes_of_def)
    next
      case ge: False
      have step: "limited_get_region_info ops api_key http st r = (RateLimited, st)"
        using ul ge True by (simp add: limited_get_region_info_def limiter_hit_def)
      have "outcomes_of c rs (serve ops api_key http st rs) =
         map (\<lambda>r. Processed (get_region_info ops api_key http (req_args r)))
           (take (10 - length B) (filter (\<lambda>r. req_client r = c) rs))
         @ replicate (length (filter (\<lambda>r. req_client r = c) rs) - (10 - length B)) RateLimited"
        using Cons.prems by (intro Cons.IH [of st B, OF Cons.prems(1)]) auto
      moreover have "10 - length B = 0"
        using ge by simp
      ultimately show ?thesis
        using True step by (simp add: outcomes_of_def)
    qed
  qed
qed

text \<open>
  The hourly cap rejects where the cap per minute does not: after 50 accepted requests
  61 seconds apart, the next one, 61 seconds later, has no request in its minute and
  is rejected.
\<close>

lemma hourly_cap_rejects:
  "hits_in_window 60 3050 (map (\<lambda>k. 61 * k) (rev [0..<50])) = 0
   \<and> \<not> under_limits (map (\<lambda>k. 61 * k) (rev [0..<50])) 3050"
proof (rule conjI)
  have "filter (\<lambda>t'. 3050 < t' + 60) (map (\<lambda>k. 61 * k) (rev [0..<50])) = []"
    by (auto simp: filter_empty_conv)
  then show "hits_in_window 60 3050 (map (\<lambda>k. 61 * k) (rev [0..<50])) = 0"
    by (simp add: hits_in_window_def)
next
  have "filter (\<lambda>t'. 3050 < t' + 3600) (map (\<lambda>k. 61 * k) (rev [0..<50]))
          = map (\<lambda>k. 61 * k) (rev [0..<50])"
    by (auto simp: filter_id_conv)
  then have "hits_in_window 3600 3050 (map (\<lambda>k. 61 * k) (rev [0..<50])) = 50"
    by (simp add: hits_in_window_def)
  then show "\<not> under_limits (map (\<lambda>k. 61 * k) (rev [0..<50])) 3050"
    by (simp add: under_limits_def route_limits_def default_limits_def)
qed

lemma replicate_ten: "replicate 10 x = [x, x, x, x, x, x, x, x, x, x]"
  by (simp add: numeral_eq_Suc)

section \<open>The claims\<close>

text \<open>
  C1 (fails on the code). The claim: for every pair of float coordinates the endpoint's
  aggregation is total and yields the record of the three provider results. At the
  request \<open>latitude=37.566&longitude=126.978\<close>, when the geocoding service replies with
  the JSON array \<open>[]\<close>, \<open>get_map_info\<close> raises \<open>AttributeError\<close> and the endpoint answers
  500 with the server-error message: no aggregate is produced.
\<close>

theorem get_region_info_array_reply_500:
  "get_region_info milli_ops (Some ''KEY'') (\<lambda>url params t. Inr (JArr []))
      [''latitude'' \<mapsto> ''37.566'', ''longitude'' \<mapsto> ''126.978'']
     = ((ErrorBody server_error, 500),
        [GeocodeSuccess (JArr []), EndpointError AttributeError])"
  by (simp add: get_region_info_def args_get_float_def get_map_info_def milli_ops_def
        milli_parse_def)

text \<open>
  C2. For every coordinate, \<open>get_forest_data\<close> returns \<open>is_mountain_area = True\<close>, the
  fixed region label, and exactly four boundary points: the coordinate offset by
  (0.001, 0.001), (0.002, 0.001), (0.002, 0.002) and (0.001, 0.002), in this order.
\<close>

theorem get_forest_data_mock_polygon:
  "fst (get_forest_data ops latitude longitude) =
     \<lparr>is_mountain_area = True, region_name = region_label,
      boundary_coordinates =
        [\<lparr>lat = fadd ops latitude (lit_0_001 ops), lon = fadd ops longitude (lit_0_001 ops)\<rparr>,
         \<lparr>lat = fadd ops latitude (lit_0_002 ops), lon = fadd ops longitude (lit_0_001 ops)\<rparr>,
         \<lparr>lat = fadd ops latitude (lit_0_002 ops), lon = fadd ops longitude (lit_0_002 ops)\<rparr>,
         \<lparr>lat = fadd ops latitude (lit_0_001 ops), lon = fadd ops longitude (lit_0_002 ops)\<rparr>]\<rparr>
   \<and> length (boundary_coordinates (fst (get_forest_data ops latitude longitude))) = 4"
  by (simp add: get_forest_data_def forest_try_def)

text \<open>
  C3 (fails on the code). The claim: on a transport failure, a timeout, a malformed
  response or a status other than \<open>"OK"\<close>, \<open>get_map_info\<close> returns the fallback address and
  never raises. When the reply decodes to the JSON array \<open>[]\<close>, a response of the wrong
  shape with no \<open>"OK"\<close> status, \<open>get_map_info\<close> raises \<open>AttributeError\<close> to its caller.
\<close>

theorem get_map_info_array_reply_raises:
  "get_map_info milli_ops (Some ''KEY'') (\<lambda>url params t. Inr (JArr [])) 37566 126978
     = (Inl AttributeError, [GeocodeSuccess (JArr [])])"
  by (simp add: get_map_info_def)

text \<open>
  C4. The result of \<open>get_property_data\<close> does not depend on the region name: for any
  two names the results (and the log events) are equal, and the record is the fixed owner,
  the registration number \<open>1234-5678-9012\<close> and no management.
\<close>

theorem get_property_data_ignores_region:
  "(get_property_data r1 :: property_data \<times> 'f log_event list) = get_property_data r2
   \<and> fst (get_property_data r1 :: property_data \<times> 'f log_event list) =
       \<lparr>owner = mock_owner, registration_number = ''1234-5678-9012'', management = None\<rparr>"
  by (simp add: get_property_data_def property_try_def)

text \<open>
  C5. When \<open>latitude\<close> or \<open>longitude\<close> is missing, or present with a text that \<open>float\<close>
  rejects, the endpoint answers 400 with the fixed message; the answer is the same in
  the four cases, it emits no log event and does not depend on the geocoding service,
  so that no provider has run (each provider call logs one event).
\<close>

theorem get_region_info_bad_parameter_400:
  assumes "args ''latitude'' = None
         \<or> (\<exists>s. args ''latitude'' = Some s \<and> fparse ops s = None)
         \<or> args ''longitude'' = None
         \<or> (\<exists>s. args ''longitude'' = Some s \<and> fparse ops s = None)"
  shows "get_region_info ops api_key http args = ((ErrorBody missing_parameters, 400), [])"
  using assms
  by (auto simp: get_region_info_def args_get_float_def split: option.splits)

text \<open>
  Witness of C5: \<open>latitude=abc&longitude=126.978\<close> is answered 400.
\<close>

theorem get_region_info_bad_parameter_400_witness:
  "[''latitude'' \<mapsto> ''abc'', ''longitude'' \<mapsto> ''126.978''] ''latitude'' = Some ''abc''
   \<and> fparse milli_ops ''abc'' = None
   \<and> get_region_info milli_ops (Some ''KEY'') (\<lambda>url params t. Inl Timeout)
        [''latitude'' \<mapsto> ''abc'', ''longitude'' \<mapsto> ''126.978'']
       = ((ErrorBody missing_parameters, 400), [])"
proof -
  have p: "fparse milli_ops ''abc'' = None"
    by (simp add: milli_ops_def milli_parse_def)
  have a: "[''latitude'' \<mapsto> ''abc'', ''longitude'' \<mapsto> ''126.978''] ''latitude'' = Some ''abc''"
    by simp
  from a p have "\<exists>s. [''latitude'' \<mapsto> ''abc'', ''longitude'' \<mapsto> ''126.978''] ''latitude'' = Some s
              \<and> fparse milli_ops s = None"
    by blast
  then have "get_region_info milli_ops (Some ''KEY'') (\<lambda>url params t. Inl Timeout)
        [''latitude'' \<mapsto> ''abc'', ''longitude'' \<mapsto> ''126.978'']
       = ((ErrorBody missing_parameters, 400), [])"
    by (intro get_region_info_bad_parameter_400) blast
  with a p show ?thesis by blast
qed

text \<open>
  C6 (fails on the code). The claim: when the reply has \<open>status\<close> equal to \<open>"OK"\<close> and a
  non-empty \<open>results\<close>, \<open>get_map_info\<close> returns the \<open>formatted_address\<close> of the first
  result and the \<open>location_type\<close> of its \<open>geometry\<close>, \<open>"N/A"\<close> when that is absent. For the
  reply \<open>{"status": "OK", "results": [{"formatted_address": "Seoul", "geometry": null}]}\<close>
  the claim gives the address \<open>Seoul\<close> and the location type \<open>N/A\<close>; \<open>get_map_info\<close>
  raises \<open>AttributeError\<close> and returns nothing.
\<close>

theorem get_map_info_null_geometry_raises:
  "get_map_info milli_ops (Some ''KEY'')
     (\<lambda>url params t. Inr (JObj [(''status'', JStr ''OK''),
        (''results'', JArr [JObj [(''formatted_address'', JStr ''Seoul''),
                                  (''geometry'', JNull)]])]))
     37566 126978
   = (Inl AttributeError,
      [GeocodeSuccess (JObj [(''status'', JStr ''OK''),
        (''results'', JArr [JObj [(''formatted_address'', JStr ''Seoul''),
                                  (''geometry'', JNull)]])])])"
  by (simp add: get_map_info_def)

text \<open>
  C7 (fails on the code). The claim: for every coordinate and every outcome of the
  geocoding call, \<open>get_map_info\<close> returns a map info whose \<open>map_image_url\<close> is the
  static-map URL, never empty. When the reply decodes to the JSON array \<open>[]\<close>,
  \<open>get_map_info\<close> raises before line 75 and no URL is built or returned.
\<close>

theorem get_map_info_array_reply_no_url:
  "(case fst (get_map_info milli_ops (Some ''KEY'') (\<lambda>url params t. Inr (JArr []))
               37566 126978) of
      Inr m \<Rightarrow> Some (map_image_url m)
    | Inl e \<Rightarrow> None) = None"
  by (simp add: get_map_info_def)

text \<open>
  C8. A client whose last accepted request is a day old or older (or that has none)
  issues 11 requests, any two of them less than 60 seconds apart, while other clients
  issue theirs: its first 10 requests are processed by \<open>get_region_info\<close> and its 11th
  is rejected by the limiter, \<open>get_region_info\<close> not being run. The cap of 10 per minute
  is layered under 50 per hour and 200 per day: a request is rejected exactly when the
  client has 10 accepted requests in the last minute, or 50 in the last hour, or 200 in
  the last day.
\<close>

theorem rate_limit_eleventh_rejected:
  assumes "length (filter (\<lambda>r. req_client r = c) rs) = 11"
    and "\<forall>r\<in>set rs. \<forall>r'\<in>set rs. req_client r = c \<and> req_client r' = c
            \<longrightarrow> req_time r < req_time r' + 60"
    and "\<forall>t'\<in>set (st c). \<forall>r\<in>set rs. req_client r = c \<longrightarrow> t' + 86400 \<le> req_time r"
  shows "outcomes_of c rs (serve ops api_key http st rs) =
       map (\<lambda>r. Processed (get_region_info ops api_key http (req_args r)))
           (take 10 (filter (\<lambda>r. req_client r = c) rs))
       @ [RateLimited]
   \<and> ((fst (limited_get_region_info ops api_key http st' q) = RateLimited) =
        (10 \<le> hits_in_window 60 (req_time q) (st' (req_client q))
         \<or> 50 \<le> hits_in_window 3600 (req_time q) (st' (req_client q))
         \<or> 200 \<le> hits_in_window 86400 (req_time q) (st' (req_client q))))"
proof (rule conjI)
  have "outcomes_of c rs (serve ops api_key http st rs) =
       map (\<lambda>r. Processed (get_region_info ops api_key http (req_args r)))
           (take (10 - length ([]::nat list)) (filter (\<lambda>r. req_client r = c) rs))
       @ replicate (length (filter (\<lambda>r. req_client r = c) rs) - (10 - length ([]::nat list)))
           RateLimited"
    using assms by (intro serve_burst [of st c "[]" "st c"]) auto
  then show "outcomes_of c rs (serve ops api_key http st rs) =
       map (\<lambda>r. Processed (get_region_info ops api_key http (req_args r)))
           (take 10 (filter (\<lambda>r. req_client r = c) rs))
       @ [RateLimited]"
    using assms(1) by simp
next
  show "(fst (limited_get_region_info ops api_key http st' q) = RateLimited) =
        (10 \<le> hits_in_window 60 (req_time q) (st' (req_client q))
         \<or> 50 \<le> hits_in_window 3600 (req_time q) (st' (req_client q))
         \<or> 200 \<le> hits_in_window 86400 (req_time q) (st' (req_client q)))"
    by (auto simp: limited_get_region_info_def limiter_hit_def under_limits_def
          route_limits_def default_limits_def)
qed

text \<open>
  Witness of C8: the burst of \<open>10.0.0.1\<close> (eleven requests from time 100000 to 100059,
  last accepted before at time 5); ten are processed, each answered 200, and the
  eleventh is rejected.
\<close>

theorem rate_limit_eleventh_rejected_witness:
  "outcomes_of ''10.0.0.1'' burst_requests
     (serve milli_ops (Some ''KEY'') (\<lambda>url params t. Inl Timeout) burst_state burst_requests)
   = replicate 10
       (Processed (get_region_info milli_ops (Some ''KEY'') (\<lambda>url params t. Inl Timeout)
          [''latitude'' \<mapsto> ''37.566'', ''longitude'' \<mapsto> ''126.978'']))
     @ [RateLimited]
   \<and> snd (fst (get_region_info milli_ops (Some ''KEY'') (\<lambda>url params t. Inl Timeout)
          [''latitude'' \<mapsto> ''37.566'', ''longitude'' \<mapsto> ''126.978''])) = 200"
proof (rule conjI)
  have h1: "length (filter (\<lambda>r. req_client r = ''10.0.0.1'') burst_requests) = 11"
    by (simp add: burst_requests_def)
  have span: "\<forall>r\<in>set burst_requests. 100000 \<le> req_time r \<and> req_time r < 100060"
    by (simp add: burst_requests_def)
  have h2: "\<forall>r\<in>set burst_requests. \<forall>r'\<in>set burst_requests.
      req_client r = ''10.0.0.1'' \<and> req_client r' = ''10.0.0.1''
        \<longrightarrow> req_time r < req_time r' + 60"
  proof (intro ballI impI)
    fix r r'
    assume "r \<in> set burst_requests" and "r' \<in> set burst_requests"
    with span have "req_time r < 100060" and "100000 \<le> req_time r'"
      by blast+
    then show "req_time r < req_time r' + 60"
      by linarith
  qed
  have h3: "\<forall>t'\<in>set (burst_state ''10.0.0.1''). \<forall>r\<in>set burst_requests.
      req_client r = ''10.0.0.1'' \<longrightarrow> t' + 86400 \<le> req_time r"
  proof (intro ballI impI)
    fix t' r
    assume "t' \<in> set (burst_state ''10.0.0.1'')" and "r \<in> set burst_requests"
    with span have "t' = 5" and "100000 \<le> req_time r"
      by (simp_all add: burst_state_def)
    then show "t' + 86400 \<le> req_time r"
      by linarith
  qed
  have run: "outcomes_of ''10.0.0.1'' burst_requests
     (serve milli_ops (Some ''KEY'') (\<lambda>url params t. Inl Timeout) burst_state burst_requests)
   = map (\<lambda>r. Processed (get_region_info milli_ops (Some ''KEY'')
                 (\<lambda>url params t. Inl Timeout) (req_args r)))
       (take 10 (filter (\<lambda>r. req_client r = ''10.0.0.1'') burst_requests))
     @ [RateLimited]"
    by (rule conjunct1
          [OF rate_limit_eleventh_rejected
            [where c = "''10.0.0.1''" and rs = burst_requests and st = burst_state,
             OF h1 h2 h3]])
  have same: "map (\<lambda>r. Processed (get_region_info milli_ops (Some ''KEY'')
                 (\<lambda>url params t. Inl Timeout) (req_args r)))
       (take 10 (filter (\<lambda>r. req_client r = ''10.0.0.1'') burst_requests))
     @ [RateLimited]
   = replicate 10
       (Processed (get_region_info milli_ops (Some ''KEY'') (\<lambda>url params t. Inl Timeout)
          [''latitude'' \<mapsto> ''37.566'', ''longitude'' \<mapsto> ''126.978'']))
     @ [RateLimited]"
    by (simp add: burst_requests_def replicate_ten)
  show "outcomes_of ''10.0.0.1'' burst_requests
     (serve milli_ops (Some ''KEY'') (\<lambda>url params t. Inl Timeout) burst_state burst_requests)
   = replicate 10
       (Processed (get_region_info milli_ops (Some ''KEY'') (\<lambda>url params t. Inl Timeout)
          [''latitude'' \<mapsto> ''37.566'', ''longitude'' \<mapsto> ''126.978'']))
     @ [RateLimited]"
    by (rule trans [OF run same])
next
  show "snd (fst (get_region_info milli_ops (Some ''KEY'') (\<lambda>url params t. Inl Timeout)
          [''latitude'' \<mapsto> ''37.566'', ''longitude'' \<mapsto> ''126.978''])) = 200"
    by (simp add: get_region_info_def args_get_float_def get_map_info_def
          get_forest_data_def forest_try_def get_property_data_def property_try_def
          milli_ops_def milli_parse_def)
qed

text \<open>
  C9. In every map info that \<open>get_map_info\<close> returns, on the success path and on the
  fallback path, \<open>formatted_address\<close> equals \<open>address\<close>.
\<close>

theorem get_map_info_formatted_address:
  assumes "get_map_info ops api_key http latitude longitude = (Inr m, evs)"
  shows "formatted_address m = address m"
  using assms
  by (auto simp: get_map_info_def Let_def split: sum.splits prod.splits if_splits)

text \<open>
  Witness of C9: a successful reply whose first result has no \<open>formatted_address\<close>.
\<close>

theorem get_map_info_formatted_address_witness:
  "get_map_info milli_ops None
     (\<lambda>url params t. Inr (JObj [(''status'', JStr ''OK''),
        (''results'', JArr [JObj [(''geometry'', JObj [(''location_type'', JStr ''ROOFTOP'')])]])]))
     37566 126978 =
     (Inr \<lparr>address = JStr no_address, formatted_address = JStr no_address,
           location_type = JStr ''ROOFTOP'',
           map_image_url =
             ''https://maps.googleapis.com/maps/api/staticmap?center=37.566,126.978'' @
             ''&zoom=15&size=600x300&key=None''\<rparr>,
      [GeocodeSuccess (JObj [(''status'', JStr ''OK''),
        (''results'', JArr [JObj [(''geometry'', JObj [(''location_type'', JStr ''ROOFTOP'')])]])])])
   \<and> formatted_address
       (\<lparr>address = JStr no_address, formatted_address = JStr no_address,
         location_type = JStr ''ROOFTOP'',
         map_image_url =
           ''https://maps.googleapis.com/maps/api/staticmap?center=37.566,126.978'' @
           ''&zoom=15&size=600x300&key=None''\<rparr> :: int map_info)
      = address
       (\<lparr>address = JStr no_address, formatted_address = JStr no_address,
         location_type = JStr ''ROOFTOP'',
         map_image_url =
           ''https://maps.googleapis.com/maps/api/staticmap?center=37.566,126.978'' @
           ''&zoom=15&size=600x300&key=None''\<rparr> :: int map_info)"
proof -
  have h: "get_map_info milli_ops None
     (\<lambda>url params t. Inr (JObj [(''status'', JStr ''OK''),
        (''results'', JArr [JObj [(''geometry'', JObj [(''location_type'', JStr ''ROOFTOP'')])]])]))
     37566 126978 =
     (Inr \<lparr>address = JStr no_address, formatted_address = JStr no_address,
           location_type = JStr ''ROOFTOP'',
           map_image_url =
             ''https://maps.googleapis.com/maps/api/staticmap?center=37.566,126.978'' @
             ''&zoom=15&size=600x300&key=None''\<rparr>,
      [GeocodeSuccess (JObj [(''status'', JStr ''OK''),
        (''results'', JArr [JObj [(''geometry'', JObj [(''location_type'', JStr ''ROOFTOP'')])]])])])"
    by (simp add: get_map_info_def milli_ops_def milli_str_def)
  show ?thesis
    by (rule conjI [OF h get_map_info_formatted_address [OF h]])
qed

text \<open>
  C10. The \<open>except\<close> branches of \<open>get_forest_data\<close> and \<open>get_property_data\<close> are never
  taken: the body of each \<open>try\<close> does not raise, and neither function returns its
  fallback record or logs a failure.
\<close>

theorem mock_fallbacks_unreachable:
  "forest_try ops latitude longitude \<noteq> Inl e
   \<and> fst (get_forest_data ops latitude longitude) \<noteq>
       \<lparr>is_mountain_area = False, region_name = [], boundary_coordinates = []\<rparr>
   \<and> snd (get_forest_data ops latitude longitude) \<noteq> [ForestFailure e]
   \<and> property_try region \<noteq> Inl e
   \<and> fst (get_property_data region :: property_data \<times> 'f log_event list) \<noteq>
       \<lparr>owner = [], registration_number = [], management = None\<rparr>
   \<and> snd (get_property_data region :: property_data \<times> 'f log_event list) \<noteq>
       [PropertyFailure e]"
  by (simp add: get_forest_data_def forest_try_def get_property_data_def property_try_def
        mock_owner_def)

end
